theory Spec2Isabelle
  imports Main
begin

section \<open>The core interfaces of the engine system (lib/sqlalchemy/engine/interfaces.py)\<close>

text \<open>
  The module declares the contracts every database dialect fulfils: the base class
  \<open>Dialect\<close> with its hooks, the typed dictionaries that reflection returns, the
  \<open>CreateEnginePlugin\<close> extension hook, \<open>ExceptionContext\<close> and the
  \<open>AdaptedConnection\<close> facade. The development embeds the bodies of the base
  classes as they are written. A Python method becomes a HOL function of \<open>self\<close> (or
  \<open>cls\<close>) and its arguments; \<^verbatim>\<open>raise E()\<close> becomes the result \<open>Inl E\<close>; a
  body that holds nothing but its docstring falls off its end and returns \<open>None\<close>, that
  is \<open>Inr PyNone\<close>.
\<close>

subsection \<open>Python values, exceptions and results\<close>

text \<open>
  Python is dynamically typed: a hook annotated with a dictionary type can still hand
  back \<open>None\<close>. Values that cross the interface are therefore one datatype. \<open>PyObj\<close>
  is a reference to an object this module treats as opaque (a driver connection, an
  engine, a callable).
\<close>

datatype pyval =
    PyNone
  | PyBool bool
  | PyInt int
  | PyStr string
  | PyList "pyval list"
  | PyDict "(string \<times> pyval) list"
  | PyObj nat

text \<open>
  The exceptions a call can end with. \<open>NotImplementedError\<close> is the only one the
  module raises itself; \<open>DriverError\<close> stands for whatever a driver, a callback or an
  awaitable raises.
\<close>

datatype error = NotImplementedError | DriverError string

type_synonym 'a result = "error + 'a"

text \<open>Keyword arguments (\<^verbatim>\<open>**kw\<close>) in the order given.\<close>

type_synonym kwargs = "(string \<times> pyval) list"

text \<open>
  A \<open>Connection\<close> is an opaque handle. The class \<open>URL\<close> lives in engine/url.py,
  outside this module, which only relies on its query-parameter mapping; it is a record
  of the driver name and the query parameters in the order written.
\<close>

datatype Connection = Connection nat

record URL =
  drivername :: string
  query :: "(string \<times> string) list"

subsection \<open>BindTyping and the Dialect class\<close>

datatype BindTyping = NONE | SETINPUTSIZES | RENDER_CASTS

text \<open>
  A dialect class. Python resolves \<^verbatim>\<open>cls.get_dialect_cls(url)\<close> and
  \<^verbatim>\<open>self.on_connect()\<close> on the class of the receiver, so a class records, beside
  its name, whether it overrides these two methods: \<open>None\<close> means the method is
  inherited from \<open>Dialect\<close>, \<open>Some\<close> carries the subclass's own method (for
  \<open>on_connect\<close>, what the subclass's method returns).
\<close>

datatype dialect_cls =
  DialectCls
    (cls_name: string)
    (get_dialect_cls_override: "(URL \<Rightarrow> error + dialect_cls) option")
    (on_connect_override: "(error + pyval) option")

text \<open>
  A dialect instance: its class and the attributes the class body gives a value or an
  annotation that the hooks below could consult. \<open>supports_statement_cache\<close> and
  \<open>bind_typing\<close> have class-level defaults (\<open>True\<close>, \<open>BindTyping.NONE\<close>).
\<close>

record Dialect =
  cls_of :: dialect_cls
  name :: string
  driver :: string
  supports_statement_cache :: bool
  bind_typing :: BindTyping

text \<open>The class \<open>Dialect\<close> itself, and an instance of it with the class defaults.\<close>

definition Dialect_class :: dialect_cls where
  "Dialect_class = DialectCls ''Dialect'' None None"

definition base_dialect :: Dialect where
  "base_dialect = \<lparr> cls_of = Dialect_class, name = ''sqlite'', driver = ''pysqlite'',
     supports_statement_cache = True, bind_typing = NONE \<rparr>"

subsection \<open>Reflection hooks of Dialect\<close>

text \<open>
  Each hook is written with the parameters of its \<^verbatim>\<open>def\<close>: the connection, the
  target name where there is one, the optional schema (default \<open>None\<close>) and the extra
  keyword arguments. The bodies are the source's: \<^verbatim>\<open>raise NotImplementedError()\<close>
  everywhere but in \<open>get_table_options\<close>, whose body is its docstring alone.
\<close>

definition get_columns ::
  "Dialect \<Rightarrow> Connection \<Rightarrow> string \<Rightarrow> string option \<Rightarrow> kwargs \<Rightarrow> pyval result" where
  "get_columns self connection table_name schema kw = Inl NotImplementedError"

definition get_pk_constraint ::
  "Dialect \<Rightarrow> Connection \<Rightarrow> string \<Rightarrow> string option \<Rightarrow> kwargs \<Rightarrow> pyval result" where
  "get_pk_constraint self connection table_name schema kw = Inl NotImplementedError"

definition get_foreign_keys ::
  "Dialect \<Rightarrow> Connection \<Rightarrow> string \<Rightarrow> string option \<Rightarrow> kwargs \<Rightarrow> pyval result" where
  "get_foreign_keys self connection table_name schema kw = Inl NotImplementedError"

definition get_table_names ::
  "Dialect \<Rightarrow> Connection \<Rightarrow> string option \<Rightarrow> kwargs \<Rightarrow> pyval result" where
  "get_table_names self connection schema kw = Inl NotImplementedError"

definition get_temp_table_names ::
  "Dialect \<Rightarrow> Connection \<Rightarrow> string option \<Rightarrow> kwargs \<Rightarrow> pyval result" where
  "get_temp_table_names self connection schema kw = Inl NotImplementedError"

definition get_view_names ::
  "Dialect \<Rightarrow> Connection \<Rightarrow> string option \<Rightarrow> kwargs \<Rightarrow> pyval result" where
  "get_view_names self connection schema kw = Inl NotImplementedError"

definition get_sequence_names ::
  "Dialect \<Rightarrow> Connection \<Rightarrow> string option \<Rightarrow> kwargs \<Rightarrow> pyval result" where
  "get_sequence_names self connection schema kw = Inl NotImplementedError"

definition get_temp_view_names ::
  "Dialect \<Rightarrow> Connection \<Rightarrow> string option \<Rightarrow> kwargs \<Rightarrow> pyval result" where
  "get_temp_view_names self connection schema kw = Inl NotImplementedError"

definition get_view_definition ::
  "Dialect \<Rightarrow> Connection \<Rightarrow> string \<Rightarrow> string option \<Rightarrow> kwargs \<Rightarrow> pyval result" where
  "get_view_definition self connection view_name schema kw = Inl NotImplementedError"

definition get_indexes ::
  "Dialect \<Rightarrow> Connection \<Rightarrow> string \<Rightarrow> string option \<Rightarrow> kwargs \<Rightarrow> pyval result" where
  "get_indexes self connection table_name schema kw = Inl NotImplementedError"

definition get_unique_constraints ::
  "Dialect \<Rightarrow> Connection \<Rightarrow> string \<Rightarrow> string option \<Rightarrow> kwargs \<Rightarrow> pyval result" where
  "get_unique_constraints self connection table_name schema kw = Inl NotImplementedError"

definition get_check_constraints ::
  "Dialect \<Rightarrow> Connection \<Rightarrow> string \<Rightarrow> string option \<Rightarrow> kwargs \<Rightarrow> pyval result" where
  "get_check_constraints self connection table_name schema kw = Inl NotImplementedError"

text \<open>
  \<open>get_table_options\<close> has no statement after its docstring, so a call ends normally
  with \<open>None\<close>.
\<close>

definition get_table_options ::
  "Dialect \<Rightarrow> Connection \<Rightarrow> string \<Rightarrow> string option \<Rightarrow> kwargs \<Rightarrow> pyval result" where
  "get_table_options self connection table_name schema kw = Inr PyNone"

definition get_table_comment ::
  "Dialect \<Rightarrow> Connection \<Rightarrow> string \<Rightarrow> string option \<Rightarrow> kwargs \<Rightarrow> pyval result" where
  "get_table_comment self connection table_name schema kw = Inl NotImplementedError"

definition has_table ::
  "Dialect \<Rightarrow> Connection \<Rightarrow> string \<Rightarrow> string option \<Rightarrow> kwargs \<Rightarrow> pyval result" where
  "has_table self connection table_name schema kw = Inl NotImplementedError"

text \<open>\<open>has_index\<close> takes the table name and the index name, and no \<^verbatim>\<open>**kw\<close>.\<close>

definition has_index ::
  "Dialect \<Rightarrow> Connection \<Rightarrow> string \<Rightarrow> string \<Rightarrow> string option \<Rightarrow> pyval result" where
  "has_index self connection table_name index_name schema = Inl NotImplementedError"

definition has_sequence ::
  "Dialect \<Rightarrow> Connection \<Rightarrow> string \<Rightarrow> string option \<Rightarrow> kwargs \<Rightarrow> pyval result" where
  "has_sequence self connection sequence_name schema kw = Inl NotImplementedError"

subsection \<open>Two-phase transaction hooks of Dialect\<close>

text \<open>
  The transaction id is whatever the dialect makes of it (\<^verbatim>\<open>Any\<close>), so it is a
  \<open>pyval\<close>. \<open>is_prepared\<close> defaults to \<open>True\<close> and \<open>recover\<close> to \<open>False\<close> in the
  source; the model takes both explicitly.
\<close>

definition create_xid :: "Dialect \<Rightarrow> pyval result" where
  "create_xid self = Inl NotImplementedError"

definition do_begin_twophase :: "Dialect \<Rightarrow> Connection \<Rightarrow> pyval \<Rightarrow> pyval result" where
  "do_begin_twophase self connection xid = Inl NotImplementedError"

definition do_prepare_twophase :: "Dialect \<Rightarrow> Connection \<Rightarrow> pyval \<Rightarrow> pyval result" where
  "do_prepare_twophase self connection xid = Inl NotImplementedError"

definition do_rollback_twophase ::
  "Dialect \<Rightarrow> Connection \<Rightarrow> pyval \<Rightarrow> bool \<Rightarrow> bool \<Rightarrow> pyval result" where
  "do_rollback_twophase self connection xid is_prepared recover = Inl NotImplementedError"

definition do_commit_twophase ::
  "Dialect \<Rightarrow> Connection \<Rightarrow> pyval \<Rightarrow> bool \<Rightarrow> bool \<Rightarrow> pyval result" where
  "do_commit_twophase self connection xid is_prepared recover = Inl NotImplementedError"

definition do_recover_twophase :: "Dialect \<Rightarrow> Connection \<Rightarrow> pyval result" where
  "do_recover_twophase self connection = Inl NotImplementedError"

subsection \<open>Two-phase hooks of an implementing dialect\<close>

text \<open>
  Modelled from the spec: the two-phase hooks of a dialect that implements them. The
  module holds the base class only, where each of these hooks raises; the implementations
  are in the dialect packages, outside the sources. The spec gives \<open>create_xid\<close> an
  opaque id of a dialect-defined format, passes that id to begin, prepare, commit and
  rollback (the last two told by \<open>is_prepared\<close> whether prepare was called, and by
  \<open>recover\<close> whether this is a recovery pass), has \<open>do_recover_twophase\<close> return the
  list of pending transaction ids (the docstring: uncommitted prepared ones), and wants
  a rollback with \<open>is_prepared = False\<close> accepted without a prior prepare. The id is
  the type parameter \<open>'xid\<close>: nothing is known of its format. The state is what the
  backend holds for one connection: the transactions begun and not yet prepared, and
  those prepared and neither committed nor rolled back, oldest first.
\<close>

record 'xid twophase_state =
  begun :: "'xid list"
  prepared :: "'xid list"

definition twophase_start :: "'xid twophase_state" where
  "twophase_start = \<lparr> begun = [], prepared = [] \<rparr>"

text \<open>Modelled from the spec: begin records the id as begun.\<close>

definition do_begin_twophase_impl :: "'xid twophase_state \<Rightarrow> 'xid \<Rightarrow> 'xid twophase_state" where
  "do_begin_twophase_impl st xid = st \<lparr> begun := xid # begun st \<rparr>"

text \<open>Modelled from the spec: prepare makes the transaction of that id pending.\<close>

definition do_prepare_twophase_impl :: "'xid twophase_state \<Rightarrow> 'xid \<Rightarrow> 'xid twophase_state" where
  "do_prepare_twophase_impl st xid =
     st \<lparr> begun := removeAll xid (begun st), prepared := prepared st @ [xid] \<rparr>"

text \<open>
  Modelled from the spec: commit and rollback end the transaction of that id, a prepared
  one when \<open>is_prepared\<close> holds, one that was only begun otherwise. Both accept any id
  in either mode.
\<close>

definition finish_twophase :: "'xid twophase_state \<Rightarrow> 'xid \<Rightarrow> bool \<Rightarrow> 'xid twophase_state" where
  "finish_twophase st xid is_prepared =
     (if is_prepared then st \<lparr> prepared := removeAll xid (prepared st) \<rparr>
      else st \<lparr> begun := removeAll xid (begun st) \<rparr>)"

definition do_commit_twophase_impl ::
  "'xid twophase_state \<Rightarrow> 'xid \<Rightarrow> bool \<Rightarrow> bool \<Rightarrow> 'xid twophase_state" where
  "do_commit_twophase_impl st xid is_prepared recover = finish_twophase st xid is_prepared"

definition do_rollback_twophase_impl ::
  "'xid twophase_state \<Rightarrow> 'xid \<Rightarrow> bool \<Rightarrow> bool \<Rightarrow> 'xid twophase_state" where
  "do_rollback_twophase_impl st xid is_prepared recover = finish_twophase st xid is_prepared"

text \<open>Modelled from the spec: recover returns the list of pending transaction ids.\<close>

definition do_recover_twophase_impl :: "'xid twophase_state \<Rightarrow> 'xid list" where
  "do_recover_twophase_impl st = prepared st"

text \<open>A history of calls made on one connection, and the state it leaves.\<close>

datatype 'xid twophase_call =
    Begin 'xid
  | Prepare 'xid
  | Commit 'xid bool bool
  | Rollback 'xid bool bool

fun twophase_step :: "'xid twophase_state \<Rightarrow> 'xid twophase_call \<Rightarrow> 'xid twophase_state" where
  "twophase_step st (Begin xid) = do_begin_twophase_impl st xid"
| "twophase_step st (Prepare xid) = do_prepare_twophase_impl st xid"
| "twophase_step st (Commit xid is_prepared recover) =
     do_commit_twophase_impl st xid is_prepared recover"
| "twophase_step st (Rollback xid is_prepared recover) =
     do_rollback_twophase_impl st xid is_prepared recover"

fun twophase_run :: "'xid twophase_state \<Rightarrow> 'xid twophase_call list \<Rightarrow> 'xid twophase_state" where
  "twophase_run st [] = st"
| "twophase_run st (c # cs) = twophase_run (twophase_step st c) cs"

text \<open>
  A call settles the prepared transaction \<open>x\<close> when it commits or rolls back that very
  id as a prepared one.
\<close>

fun settles :: "'xid \<Rightarrow> 'xid twophase_call \<Rightarrow> bool" where
  "settles x (Commit y is_prepared recover) = (is_prepared \<and> x = y)"
| "settles x (Rollback y is_prepared recover) = (is_prepared \<and> x = y)"
| "settles x _ = False"

subsection \<open>Connecting\<close>

text \<open>
  \<open>connect(self, *cargs, **cparams)\<close> has a docstring and no statement: it returns
  \<open>None\<close> whatever it is given.
\<close>

definition connect :: "Dialect \<Rightarrow> pyval list \<Rightarrow> kwargs \<Rightarrow> pyval result" where
  "connect self cargs cparams = Inr PyNone"

text \<open>The body of \<open>Dialect.on_connect\<close>: \<^verbatim>\<open>return None\<close>.\<close>

definition on_connect :: "Dialect \<Rightarrow> pyval result" where
  "on_connect self = Inr PyNone"

text \<open>
  The call \<^verbatim>\<open>self.on_connect()\<close>: the method of the receiver's class, which is
  \<open>Dialect.on_connect\<close> unless the class overrides it.
\<close>

definition call_on_connect :: "Dialect \<Rightarrow> pyval result" where
  "call_on_connect self =
     (case on_connect_override (cls_of self) of
        None \<Rightarrow> on_connect self
      | Some r \<Rightarrow> r)"

text \<open>The body of \<open>Dialect.on_connect_url\<close>: \<^verbatim>\<open>return self.on_connect()\<close>.\<close>

definition on_connect_url :: "Dialect \<Rightarrow> URL \<Rightarrow> pyval result" where
  "on_connect_url self u = call_on_connect self"

subsection \<open>Class-level hooks of Dialect\<close>

text \<open>The body of the classmethod \<open>get_dialect_cls\<close>: \<^verbatim>\<open>return cls\<close>.\<close>

definition get_dialect_cls :: "dialect_cls \<Rightarrow> URL \<Rightarrow> dialect_cls result" where
  "get_dialect_cls cls u = Inr cls"

text \<open>The call \<^verbatim>\<open>cls.get_dialect_cls(url)\<close>, resolved on \<open>cls\<close>.\<close>

definition call_get_dialect_cls :: "dialect_cls \<Rightarrow> URL \<Rightarrow> dialect_cls result" where
  "call_get_dialect_cls cls u =
     (case get_dialect_cls_override cls of
        None \<Rightarrow> get_dialect_cls cls u
      | Some f \<Rightarrow> f u)"

text \<open>The body of \<open>get_async_dialect_cls\<close>: \<^verbatim>\<open>return cls.get_dialect_cls(url)\<close>.\<close>

definition get_async_dialect_cls :: "dialect_cls \<Rightarrow> URL \<Rightarrow> dialect_cls result" where
  "get_async_dialect_cls cls u = call_get_dialect_cls cls u"

text \<open>\<open>load_provisioning\<close> and \<open>engine_created\<close> are docstring-only classmethods.\<close>

definition load_provisioning :: "dialect_cls \<Rightarrow> pyval result" where
  "load_provisioning cls = Inr PyNone"

definition Dialect_engine_created :: "dialect_cls \<Rightarrow> pyval \<Rightarrow> pyval result" where
  "Dialect_engine_created cls engine = Inr PyNone"

subsection \<open>ReflectedTableComment\<close>

text \<open>
  \<^verbatim>\<open>class ReflectedTableComment(TypedDict): text: str\<close>. A typed dictionary is an
  ordinary \<open>dict\<close> at run time and its annotations are not checked: the call
  \<^verbatim>\<open>ReflectedTableComment(text=v)\<close> is the dictionary with the one key \<open>text\<close>
  holding \<open>v\<close>, whatever \<open>v\<close> is.
\<close>

definition ReflectedTableComment :: "pyval \<Rightarrow> pyval" where
  "ReflectedTableComment text_value = PyDict [(''text'', text_value)]"

text \<open>Reading a key of a dictionary value; \<open>None\<close> when the key is absent.\<close>

fun getitem :: "pyval \<Rightarrow> string \<Rightarrow> pyval option" where
  "getitem (PyDict kvs) k = map_of kvs k"
| "getitem _ k = None"

subsection \<open>CreateEnginePlugin\<close>

record CreateEnginePlugin =
  url :: URL

text \<open>
  \<open>__init__(self, url, kwargs)\<close> is \<^verbatim>\<open>self.url = url\<close>. \<open>kwargs\<close> is the caller's
  dictionary, which a plugin may mutate in place, so the constructor returns it next to
  the new instance.
\<close>

definition CreateEnginePlugin_init :: "URL \<Rightarrow> kwargs \<Rightarrow> CreateEnginePlugin \<times> kwargs" where
  "CreateEnginePlugin_init u kwargs = (\<lparr> url = u \<rparr>, kwargs)"

text \<open>
  \<open>update_url\<close>, \<open>handle_dialect_kwargs\<close>, \<open>handle_pool_kwargs\<close> and
  \<open>engine_created\<close> are docstring-only: each returns \<open>None\<close>. A URL is immutable;
  \<open>update_url\<close> would hand a new one back, so its result is an optional URL, with
  \<open>None\<close> for Python's \<open>None\<close>. The two \<open>handle_\<close> hooks receive dictionaries
  they may mutate, returned here beside the result.
\<close>

definition update_url :: "CreateEnginePlugin \<Rightarrow> URL \<Rightarrow> URL option result" where
  "update_url self u = Inr None"

definition handle_dialect_kwargs ::
  "CreateEnginePlugin \<Rightarrow> dialect_cls \<Rightarrow> kwargs \<Rightarrow> pyval result \<times> kwargs" where
  "handle_dialect_kwargs self dialect_cls dialect_args = (Inr PyNone, dialect_args)"

definition handle_pool_kwargs ::
  "CreateEnginePlugin \<Rightarrow> pyval \<Rightarrow> kwargs \<Rightarrow> pyval result \<times> kwargs" where
  "handle_pool_kwargs self pool_cls pool_args = (Inr PyNone, pool_args)"

definition CreateEnginePlugin_engine_created :: "CreateEnginePlugin \<Rightarrow> pyval \<Rightarrow> pyval result" where
  "CreateEnginePlugin_engine_created self engine = Inr PyNone"

subsection \<open>ExceptionContext\<close>

text \<open>
  The class body assigns every attribute a class-level value and defines no
  constructor, so a fresh instance reads exactly these values. \<open>is_disconnect\<close> is
  \<open>None\<close> until it is classified, then \<open>True\<close> or \<open>False\<close>. Assigning to an
  attribute of an instance is a record update.
\<close>

record ExceptionContext =
  connection :: pyval
  engine :: pyval
  cursor :: pyval
  statement :: pyval
  parameters :: pyval
  original_exception :: pyval
  sqlalchemy_exception :: pyval
  chained_exception :: pyval
  execution_context :: pyval
  is_disconnect :: "bool option"
  invalidate_pool_on_disconnect :: bool

definition ExceptionContext_new :: ExceptionContext where
  "ExceptionContext_new = \<lparr> connection = PyNone, engine = PyNone, cursor = PyNone,
     statement = PyNone, parameters = PyNone, original_exception = PyNone,
     sqlalchemy_exception = PyNone, chained_exception = PyNone,
     execution_context = PyNone, is_disconnect = None,
     invalidate_pool_on_disconnect = True \<rparr>"

subsection \<open>AdaptedConnection\<close>

text \<open>
  The class has the single slot \<^verbatim>\<open>_connection\<close> (field \<open>slot_connection\<close>: an
  Isabelle name cannot start with an underscore), the driver's own connection object.
\<close>

record AdaptedConnection =
  slot_connection :: pyval

definition driver_connection :: "AdaptedConnection \<Rightarrow> pyval" where
  "driver_connection self = slot_connection self"

text \<open>
  Modelled from the spec: \<open>await_only\<close> is imported from util/concurrency.py, which is
  not among the sources. The spec says of it that the caller is blocked until the
  awaitable resolves, that the result of the awaitable is returned, and that a failure of
  the awaitable reaches the caller as an exception. An awaitable is accordingly something
  that, after any number of suspensions (\<open>Pending\<close>), resolves to a value or fails with
  an exception, and \<open>await_only\<close> runs it to that end.
\<close>

datatype awaitable = Resolved pyval | Failed error | Pending awaitable

fun await_only :: "awaitable \<Rightarrow> pyval result" where
  "await_only (Resolved v) = Inr v"
| "await_only (Failed e) = Inl e"
| "await_only (Pending k) = await_only k"

text \<open>
  The body of \<open>run_async\<close>: \<^verbatim>\<open>return await_only(fn(self._connection))\<close>. The
  argument \<open>fn(self._connection)\<close> is evaluated first; if \<open>fn\<close> itself raises, that
  exception leaves \<open>run_async\<close> and nothing is awaited.
\<close>

definition run_async :: "AdaptedConnection \<Rightarrow> (pyval \<Rightarrow> awaitable result) \<Rightarrow> pyval result" where
  "run_async self fn =
     (case fn (slot_connection self) of
        Inl e \<Rightarrow> Inl e
      | Inr aw \<Rightarrow> await_only aw)"

section \<open>Properties\<close>

subsection \<open>Reflection hooks\<close>

lemma reflection_hooks_raise_not_implemented:
  "get_columns d c t s kw = Inl NotImplementedError"
  "get_pk_constraint d c t s kw = Inl NotImplementedError"
  "get_foreign_keys d c t s kw = Inl NotImplementedError"
  "get_table_names d c s kw = Inl NotImplementedError"
  "get_temp_table_names d c s kw = Inl NotImplementedError"
  "get_view_names d c s kw = Inl NotImplementedError"
  "get_sequence_names d c s kw = Inl NotImplementedError"
  "get_temp_view_names d c s kw = Inl NotImplementedError"
  "get_view_definition d c t s kw = Inl NotImplementedError"
  "get_indexes d c t s kw = Inl NotImplementedError"
  "get_unique_constraints d c t s kw = Inl NotImplementedError"
  "get_check_constraints d c t s kw = Inl NotImplementedError"
  "get_table_comment d c t s kw = Inl NotImplementedError"
  "has_table d c t s kw = Inl NotImplementedError"
  "has_index d c t i s = Inl NotImplementedError"
  "has_sequence d c t s kw = Inl NotImplementedError"
  by (simp_all add: get_columns_def get_pk_constraint_def get_foreign_keys_def
      get_table_names_def get_temp_table_names_def get_view_names_def
      get_sequence_names_def get_temp_view_names_def get_view_definition_def
      get_indexes_def get_unique_constraints_def get_check_constraints_def
      get_table_comment_def has_table_def has_index_def has_sequence_def)

text \<open>
  C1. Every reflection hook of the base class is said to raise the not-implemented
  signal. Sixteen of the seventeen do (\<open>reflection_hooks_raise_not_implemented\<close>).
  \<open>get_table_options\<close> does not: called on the base dialect for the table
  \<open>users\<close> with no schema, it returns \<open>None\<close> as an ordinary value, and no
  exception reaches the caller.
\<close>

theorem get_table_options_returns_none:
  "get_table_options base_dialect (Connection 0) ''users'' None [] = Inr PyNone
   \<and> get_table_options base_dialect (Connection 0) ''users'' None [] \<noteq> Inl NotImplementedError"
  by (simp add: get_table_options_def)

subsection \<open>AdaptedConnection.run_async\<close>

text \<open>However often the awaitable suspends, awaiting it gives the outcome it ends with.\<close>

lemma await_only_after_suspensions:
  "await_only ((Pending ^^ n) aw) = await_only aw"
  by (induction n) simp_all

lemma run_async_is_await_only:
  "fn (driver_connection self) = Inr aw \<Longrightarrow> run_async self fn = await_only aw"
  by (simp add: run_async_def driver_connection_def)

lemma run_async_fn_raises:
  "fn (driver_connection self) = Inl e \<Longrightarrow> run_async self fn = Inl e"
  by (simp add: run_async_def driver_connection_def)

text \<open>
  C2. \<open>run_async(fn)\<close> applies \<open>fn\<close> to the wrapped connection, the object that
  \<open>driver_connection\<close> exposes. When the awaitable that \<open>fn\<close> returns resolves to
  \<open>v\<close> (after \<open>n\<close> suspensions), \<open>run_async\<close> returns exactly \<open>v\<close>; when it
  fails with \<open>e\<close>, \<open>run_async\<close> raises \<open>e\<close> to its caller.
\<close>

theorem run_async_returns_awaited_result:
  "(fn (driver_connection self) = Inr ((Pending ^^ n) (Resolved v))
      \<longrightarrow> run_async self fn = Inr v)
   \<and> (fn (driver_connection self) = Inr ((Pending ^^ n) (Failed e))
      \<longrightarrow> run_async self fn = Inl e)"
  by (simp add: run_async_def driver_connection_def await_only_after_suspensions)

text \<open>
  C2, at a concrete connection: a function whose awaitable suspends twice and resolves
  to a list holding the connection it was given, and one whose awaitable suspends once
  and fails.
\<close>

theorem run_async_returns_awaited_result_witness:
  "run_async \<lparr> slot_connection = PyObj 7 \<rparr>
       (\<lambda>c. Inr (Pending (Pending (Resolved (PyList [c, PyInt 42])))))
     = Inr (PyList [PyObj 7, PyInt 42])
   \<and> run_async \<lparr> slot_connection = PyObj 7 \<rparr>
       (\<lambda>c. Inr (Pending (Failed (DriverError ''connection is closed''))))
     = Inl (DriverError ''connection is closed'')"
proof -
  let ?self = "\<lparr> slot_connection = PyObj 7 \<rparr>"
  let ?ok = "\<lambda>c. Inr (Pending (Pending (Resolved (PyList [c, PyInt 42])))) :: awaitable result"
  let ?bad = "\<lambda>c::pyval. Inr (Pending (Failed (DriverError ''connection is closed''))) :: awaitable result"
  have ok: "?ok (driver_connection ?self)
      = Inr ((Pending ^^ 2) (Resolved (PyList [PyObj 7, PyInt 42])))"
    by (simp add: driver_connection_def numeral_2_eq_2)
  have bad: "?bad (driver_connection ?self)
      = Inr ((Pending ^^ 1) (Failed (DriverError ''connection is closed'')))"
    by simp
  from run_async_returns_awaited_result [of ?ok ?self 2 "PyList [PyObj 7, PyInt 42]"] ok
  have "run_async ?self ?ok = Inr (PyList [PyObj 7, PyInt 42])" by blast
  moreover
  from run_async_returns_awaited_result [of ?bad ?self 1 _ "DriverError ''connection is closed''"] bad
  have "run_async ?self ?bad = Inl (DriverError ''connection is closed'')" by blast
  ultimately show ?thesis by simp
qed

subsection \<open>Hooks with a default that does not raise\<close>

lemma usable_default_hooks_do_not_raise:
  "connect d cargs cparams \<noteq> Inl NotImplementedError"
  "on_connect d \<noteq> Inl NotImplementedError"
  "get_dialect_cls cls u \<noteq> Inl NotImplementedError"
  "load_provisioning cls \<noteq> Inl NotImplementedError"
  "Dialect_engine_created cls engine_obj \<noteq> Inl NotImplementedError"
  by (simp_all add: connect_def on_connect_def get_dialect_cls_def load_provisioning_def
      Dialect_engine_created_def)

text \<open>
  C3, as stated, fails in its last part: called with the host \<open>localhost\<close> and the
  user \<open>scott\<close>, \<open>connect\<close> on the base class returns \<open>None\<close>, not a connection,
  and the same as when it is called with no argument at all.
\<close>

theorem connect_base_returns_no_connection:
  "connect base_dialect [PyStr ''localhost''] [(''user'', PyStr ''scott'')] = Inr PyNone
   \<and> connect base_dialect [PyStr ''localhost''] [(''user'', PyStr ''scott'')]
       = connect base_dialect [] []"
  by (simp add: connect_def)

text \<open>
  C3, amended. On the base class none of \<open>connect\<close>, \<open>on_connect\<close>,
  \<open>get_dialect_cls\<close>, \<open>load_provisioning\<close> and \<open>engine_created\<close> raises the
  not-implemented signal: \<open>get_dialect_cls\<close> returns the class, and the other four
  return \<open>None\<close>. For \<open>connect\<close> that is so whatever the arguments: the base class
  opens no connection.
\<close>

theorem base_default_hooks_return_without_raising:
  "connect self cargs cparams = Inr PyNone
   \<and> on_connect self = Inr PyNone
   \<and> get_dialect_cls cls u = Inr cls
   \<and> load_provisioning cls = Inr PyNone
   \<and> Dialect_engine_created cls engine_obj = Inr PyNone
   \<and> connect self cargs cparams \<noteq> Inl NotImplementedError
   \<and> on_connect self \<noteq> Inl NotImplementedError
   \<and> get_dialect_cls cls u \<noteq> Inl NotImplementedError
   \<and> load_provisioning cls \<noteq> Inl NotImplementedError
   \<and> Dialect_engine_created cls engine_obj \<noteq> Inl NotImplementedError"
  by (simp add: connect_def on_connect_def get_dialect_cls_def load_provisioning_def
      Dialect_engine_created_def)

subsection \<open>CreateEnginePlugin\<close>

lemma CreateEnginePlugin_hooks_return_none:
  "handle_dialect_kwargs self dcls dialect_args = (Inr PyNone, dialect_args)"
  "handle_pool_kwargs self pool_cls pool_args = (Inr PyNone, pool_args)"
  "CreateEnginePlugin_engine_created self engine_obj = Inr PyNone"
  by (simp_all add: handle_dialect_kwargs_def handle_pool_kwargs_def
      CreateEnginePlugin_engine_created_def)

text \<open>
  C4, as stated, fails on the base class: a plugin built for a URL with the single
  query parameter \<open>charset\<close> does not return that URL from \<open>update_url\<close>.
\<close>

theorem update_url_base_not_identity:
  "update_url (fst (CreateEnginePlugin_init
       \<lparr> drivername = ''mysql+pymysql'', query = [(''charset'', ''utf8'')] \<rparr> []))
     \<lparr> drivername = ''mysql+pymysql'', query = [(''charset'', ''utf8'')] \<rparr>
   \<noteq> Inr (Some \<lparr> drivername = ''mysql+pymysql'', query = [(''charset'', ''utf8'')] \<rparr>)"
  by (simp add: update_url_def)

text \<open>
  C4, amended. The base \<open>update_url\<close> returns \<open>None\<close> for every plugin instance and
  every URL: it produces no replacement URL, so it removes no query parameter and
  changes none. Removing plugin-specific parameters is what an overriding plugin does.
\<close>

theorem update_url_base_returns_none:
  "update_url self u = Inr None"
  by (simp add: update_url_def)

text \<open>
  C9. The base constructor stores the URL it is given on the instance and hands the
  keyword dictionary back as it received it: no key removed, no value changed.
\<close>

theorem CreateEnginePlugin_init_stores_url_keeps_kwargs:
  "url (fst (CreateEnginePlugin_init u kwargs)) = u
   \<and> snd (CreateEnginePlugin_init u kwargs) = kwargs"
  by (simp add: CreateEnginePlugin_init_def)

subsection \<open>Table comments\<close>

lemma ReflectedTableComment_text:
  "getitem (ReflectedTableComment v) ''text'' = Some v"
  by (simp add: ReflectedTableComment_def)


subsection \<open>Resolving the dialect class\<close>

lemma get_async_dialect_cls_dispatches:
  "get_async_dialect_cls cls u = call_get_dialect_cls cls u"
  by (simp add: get_async_dialect_cls_def)

text \<open>
  C6. On \<open>Dialect\<close>, and on any class that inherits \<open>get_dialect_cls\<close> from it,
  \<open>get_dialect_cls(u)\<close> returns the class it was invoked on, whatever the URL, and
  \<open>get_async_dialect_cls(u)\<close> returns the same as \<open>get_dialect_cls(u)\<close>.
\<close>

theorem get_dialect_cls_returns_cls:
  assumes "get_dialect_cls_override cls = None"
  shows "get_dialect_cls cls u = Inr cls
     \<and> get_async_dialect_cls cls u = get_dialect_cls cls u"
  using assms
  by (simp add: get_dialect_cls_def get_async_dialect_cls_def call_get_dialect_cls_def)

text \<open>C6 at the class \<open>Dialect\<close> and a psycopg URL.\<close>

theorem get_dialect_cls_returns_cls_witness:
  "get_dialect_cls_override Dialect_class = None
   \<and> get_dialect_cls Dialect_class \<lparr> drivername = ''postgresql+psycopg'', query = [] \<rparr>
       = Inr Dialect_class
   \<and> get_async_dialect_cls Dialect_class \<lparr> drivername = ''postgresql+psycopg'', query = [] \<rparr>
       = get_dialect_cls Dialect_class \<lparr> drivername = ''postgresql+psycopg'', query = [] \<rparr>"
proof -
  have h: "get_dialect_cls_override Dialect_class = None"
    by (simp add: Dialect_class_def)
  from get_dialect_cls_returns_cls [OF h, of "\<lparr> drivername = ''postgresql+psycopg'', query = [] \<rparr>"] h
  show ?thesis by simp
qed

subsection \<open>Two-phase transactions\<close>

text \<open>On the base class every two-phase hook raises the not-implemented signal.\<close>

lemma twophase_hooks_raise_not_implemented:
  "do_recover_twophase self c = Inl NotImplementedError
   \<and> create_xid self = Inl NotImplementedError
   \<and> do_begin_twophase self c xid = Inl NotImplementedError
   \<and> do_prepare_twophase self c xid = Inl NotImplementedError
   \<and> do_commit_twophase self c xid is_prepared recover = Inl NotImplementedError
   \<and> do_rollback_twophase self c xid is_prepared recover = Inl NotImplementedError"
  by (simp add: do_recover_twophase_def create_xid_def do_begin_twophase_def
      do_prepare_twophase_def do_commit_twophase_def do_rollback_twophase_def)

text \<open>
  One call of an implementing dialect: an id is pending afterwards when the call
  prepared it, or when it was pending before and the call did not settle it.
\<close>

lemma prepared_step:
  "x \<in> set (prepared (twophase_step st c))
     \<longleftrightarrow> c = Prepare x \<or> (x \<in> set (prepared st) \<and> \<not> settles x c)"
  by (cases c)
    (auto simp: do_begin_twophase_impl_def do_prepare_twophase_impl_def
      do_commit_twophase_impl_def do_rollback_twophase_impl_def finish_twophase_def)

text \<open>The same over a history, by induction on it with the state generalised.\<close>

lemma prepared_run:
  "x \<in> set (prepared (twophase_run st cs)) \<longleftrightarrow>
     (x \<in> set (prepared st) \<and> (\<forall>c \<in> set cs. \<not> settles x c))
     \<or> (\<exists>pre post. cs = pre @ Prepare x # post \<and> (\<forall>c \<in> set post. \<not> settles x c))"
proof (induction cs arbitrary: st)
  case Nil
  then show ?case by simp
next
  case (Cons c cs)
  let ?late = "\<exists>pre post. cs = pre @ Prepare x # post \<and> (\<forall>d \<in> set post. \<not> settles x d)"
  let ?quiet = "\<forall>d \<in> set cs. \<not> settles x d"
  have split: "(\<exists>pre post. c # cs = pre @ Prepare x # post \<and> (\<forall>d \<in> set post. \<not> settles x d))
      \<longleftrightarrow> (c = Prepare x \<and> ?quiet) \<or> ?late"
  proof
    assume "\<exists>pre post. c # cs = pre @ Prepare x # post \<and> (\<forall>d \<in> set post. \<not> settles x d)"
    then obtain pre post where eq: "c # cs = pre @ Prepare x # post"
      and q: "\<forall>d \<in> set post. \<not> settles x d" by blast
    show "(c = Prepare x \<and> ?quiet) \<or> ?late"
    proof (cases pre)
      case Nil
      with eq q show ?thesis by simp
    next
      case (Cons p pre')
      with eq have "cs = pre' @ Prepare x # post" by simp
      with q show ?thesis by blast
    qed
  next
    assume "(c = Prepare x \<and> ?quiet) \<or> ?late"
    then show "\<exists>pre post. c # cs = pre @ Prepare x # post \<and> (\<forall>d \<in> set post. \<not> settles x d)"
    proof
      assume "c = Prepare x \<and> ?quiet"
      then have "c # cs = [] @ Prepare x # cs \<and> (\<forall>d \<in> set cs. \<not> settles x d)" by simp
      then show ?thesis by blast
    next
      assume ?late
      then obtain pre post where "cs = pre @ Prepare x # post"
        and q: "\<forall>d \<in> set post. \<not> settles x d"
        by blast
      then have "c # cs = (c # pre) @ Prepare x # post" by simp
      with q show ?thesis by blast
    qed
  qed
  have "x \<in> set (prepared (twophase_run st (c # cs)))
      \<longleftrightarrow> (x \<in> set (prepared (twophase_step st c)) \<and> ?quiet) \<or> ?late"
    using Cons.IH [of "twophase_step st c"] by simp
  also have "\<dots> \<longleftrightarrow>
      ((c = Prepare x \<or> (x \<in> set (prepared st) \<and> \<not> settles x c)) \<and> ?quiet) \<or> ?late"
    by (simp only: prepared_step)
  also have "\<dots> \<longleftrightarrow> (x \<in> set (prepared st) \<and> (\<forall>d \<in> set (c # cs). \<not> settles x d))
      \<or> (c = Prepare x \<and> ?quiet) \<or> ?late"
    by auto
  finally show ?case using split by simp
qed

text \<open>
  C7. For a dialect that implements the hooks: after any history of begin, prepare,
  commit and rollback calls on a connection, \<open>do_recover_twophase\<close> returns the
  pending ids and nothing else. An id \<open>x\<close> is in the list exactly when the history
  prepared \<open>x\<close> and no later call committed or rolled back \<open>x\<close> as a prepared
  transaction; it is the value that was handed to prepare, of whatever format.
\<close>

theorem do_recover_twophase_lists_pending_ids:
  "x \<in> set (do_recover_twophase_impl (twophase_run twophase_start cs)) \<longleftrightarrow>
     (\<exists>pre post. cs = pre @ Prepare x # post \<and> (\<forall>c \<in> set post. \<not> settles x c))"
  by (simp add: do_recover_twophase_impl_def prepared_run twophase_start_def)

text \<open>
  C7 on a history with string ids: \<open>a1\<close> is prepared and committed, \<open>b2\<close> is
  prepared and left, \<open>c3\<close> is begun and rolled back without a prepare. \<open>b2\<close> is
  returned, unchanged.
\<close>

theorem do_recover_twophase_lists_pending_ids_witness:
  "''b2'' \<in> set (do_recover_twophase_impl (twophase_run twophase_start
       [Begin ''a1'', Prepare ''a1'', Begin ''b2'', Prepare ''b2'',
        Commit ''a1'' True False, Begin ''c3'', Rollback ''c3'' False False]))"
proof -
  let ?cs = "[Begin ''a1'', Prepare ''a1'', Begin ''b2'', Prepare ''b2'',
        Commit ''a1'' True False, Begin ''c3'', Rollback ''c3'' False False]"
  let ?pre = "[Begin ''a1'', Prepare ''a1'', Begin ''b2'']"
  let ?post = "[Commit ''a1'' True False, Begin ''c3'', Rollback ''c3'' False False]"
  have "?cs = ?pre @ Prepare ''b2'' # ?post \<and> (\<forall>c \<in> set ?post. \<not> settles ''b2'' c)"
    by simp
  then have "\<exists>pre post. ?cs = pre @ Prepare ''b2'' # post \<and> (\<forall>c \<in> set post. \<not> settles ''b2'' c)"
    by blast
  with do_recover_twophase_lists_pending_ids [of "''b2''" ?cs] show ?thesis
    by blast
qed

lemma do_recover_twophase_example:
  "do_recover_twophase_impl (twophase_run twophase_start
       [Begin ''a1'', Prepare ''a1'', Begin ''b2'', Prepare ''b2'',
        Commit ''a1'' True False, Begin ''c3'', Rollback ''c3'' False False]) = [''b2'']"
  by (simp add: do_recover_twophase_impl_def twophase_start_def do_begin_twophase_impl_def
      do_prepare_twophase_impl_def do_commit_twophase_impl_def do_rollback_twophase_impl_def
      finish_twophase_def)

subsection \<open>ExceptionContext\<close>

text \<open>
  C8. A fresh \<open>ExceptionContext\<close> has \<open>invalidate_pool_on_disconnect = True\<close>, and
  it still has once the exception is classified (\<open>is_disconnect\<close> set, to \<open>True\<close> for
  a disconnect). When a handler assigns \<open>False\<close> to the flag, of this or of any
  other context, the flag reads \<open>False\<close> afterwards and the classification is
  untouched.
\<close>

theorem invalidate_pool_on_disconnect_default_and_overwrite:
  "invalidate_pool_on_disconnect ExceptionContext_new = True
   \<and> invalidate_pool_on_disconnect (ExceptionContext_new \<lparr> is_disconnect := b \<rparr>) = True
   \<and> invalidate_pool_on_disconnect
        (ExceptionContext_new
           \<lparr> is_disconnect := Some True, invalidate_pool_on_disconnect := False \<rparr>) = False
   \<and> is_disconnect
        (ExceptionContext_new
           \<lparr> is_disconnect := Some True, invalidate_pool_on_disconnect := False \<rparr>) = Some True
   \<and> invalidate_pool_on_disconnect (ctx \<lparr> invalidate_pool_on_disconnect := False \<rparr>) = False
   \<and> is_disconnect (ctx \<lparr> invalidate_pool_on_disconnect := False \<rparr>) = is_disconnect ctx"
  by (simp add: ExceptionContext_new_def)

subsection \<open>on_connect and on_connect_url\<close>

text \<open>
  C10. \<open>on_connect_url(u)\<close> is the result of the call \<open>self.on_connect()\<close> for every
  URL. On a dialect whose class inherits \<open>on_connect\<close> from \<open>Dialect\<close> that is the
  result of the base \<open>on_connect\<close>, which is \<open>None\<close>: no initializer for new
  connections.
\<close>

theorem on_connect_url_is_on_connect:
  "on_connect_url self u = call_on_connect self
   \<and> (on_connect_override (cls_of self) = None \<longrightarrow>
        on_connect_url self u = on_connect self \<and> on_connect_url self u = Inr PyNone)"
  by (simp add: on_connect_url_def call_on_connect_def on_connect_def)

text \<open>C10 at an instance of \<open>Dialect\<close> itself and a sqlite URL.\<close>

theorem on_connect_url_is_on_connect_witness:
  "on_connect_override (cls_of base_dialect) = None
   \<and> on_connect_url base_dialect \<lparr> drivername = ''sqlite'', query = [] \<rparr>
       = on_connect base_dialect
   \<and> on_connect_url base_dialect \<lparr> drivername = ''sqlite'', query = [] \<rparr> = Inr PyNone"
proof -
  have h: "on_connect_override (cls_of base_dialect) = None"
    by (simp add: base_dialect_def Dialect_class_def)
  from on_connect_url_is_on_connect
    [of base_dialect "\<lparr> drivername = ''sqlite'', query = [] \<rparr>"] h
  show ?thesis by blast
qed

end
